theory Spec2Isabelle
  imports Main "HOL-Library.Word"
begin

section \<open>Data model (pkg/models)\<close>

text \<open>
  Instants of \<^verbatim>\<open>time.Time\<close> are integers (nanoseconds on the UTC time line); the store only
  copies and compares them.  A Go \<^verbatim>\<open>[]byte\<close> is either the nil slice or a (possibly empty)
  sequence of bytes, and the two can be told apart by a comparison with nil, so it is an
  optional byte list.  Opaque payloads (\<^verbatim>\<open>interface{}\<close> values) are carried as text.
\<close>

type_synonym timestamp = int
type_synonym byte = "8 word"
type_synonym go_bytes = "byte list option"
type_synonym payload = string
type_synonym ResourceKind = string

text \<open>
  Modelled from the spec: the declarations of \<^verbatim>\<open>models.GenericResource\<close>, its metadata and
  \<^verbatim>\<open>models.ResourceStatus\<close> are not among the source files; the fields are those that
  \<^verbatim>\<open>sqlite.go\<close> reads and writes, with the shapes given in the data model of the specification:
  \<^verbatim>\<open>{kind, metadata: {namespace, name, uid, createdAt, updatedAt}, spec, status: {state, health, lastUpdated}}\<close>.
\<close>

record ResourceStatus =
  rs_State :: string
  rs_Health :: string
  rs_LastUpdated :: timestamp

record ResourceMetadata =
  md_Namespace :: string
  md_Name :: string
  md_UID :: string
  md_CreatedAt :: timestamp
  md_UpdatedAt :: timestamp

record GenericResource =
  Kind :: ResourceKind
  Metadata :: ResourceMetadata
  Spec :: payload
  Status :: ResourceStatus

datatype ExecutionState =
  ExecPending | ExecRunning | ExecPaused | ExecFailed | ExecCompleted | ExecRetrying

record ExecutionLog =
  log_Timestamp :: timestamp
  log_Level :: string
  log_Message :: string
  log_Step :: int

record ExecutionRecord =
  ex_ID :: string
  ex_AgentName :: string
  ex_PipelineName :: string
  ex_Namespace :: string
  ex_State :: ExecutionState
  ex_Input :: "string \<rightharpoonup> string"
  ex_Output :: "string \<rightharpoonup> payload"
  ex_CurrentStep :: int
  ex_TotalSteps :: int
  ex_Checkpoint :: go_bytes
  ex_RetryCount :: int
  ex_MaxRetries :: int
  ex_Priority :: int
  ex_Error :: string
  ex_Logs :: "ExecutionLog list"
  ex_TokensUsed :: int
  ex_LatencyMs :: int
  ex_CreatedAt :: timestamp
  ex_UpdatedAt :: timestamp
  ex_StartedAt :: "timestamp option"
  ex_CompletedAt :: "timestamp option"

section \<open>Events (pkg/store/store.go)\<close>

datatype EventType = EventCreated | EventUpdated | EventDeleted

text \<open>
  \<^verbatim>\<open>ResourceEvent.Resource\<close> is a pointer; the event is modelled with the value the resource
  has when the event is emitted.
\<close>

record ResourceEvent =
  ev_Type :: EventType
  ev_Resource :: GenericResource

section \<open>The store (pkg/store/sqlite.go)\<close>

subsection \<open>Tables, channels and the environment of a call\<close>

text \<open>
  A row of \<^verbatim>\<open>resources\<close> is found by its primary key \<^verbatim>\<open>(kind, namespace, name)\<close>.  The
  \<^verbatim>\<open>data\<close> column holds the JSON text of the resource; the model keeps the value that text
  decodes to, and a failure of \<^verbatim>\<open>json.Marshal\<close> is an outcome of the environment.
\<close>

type_synonym resource_key = "ResourceKind \<times> string \<times> string"

record resource_row =
  row_uid :: string
  row_data :: GenericResource
  row_created_at :: timestamp
  row_updated_at :: timestamp

text \<open>A \<^verbatim>\<open>BLOB\<close> column holds SQL NULL or a byte string.\<close>

datatype sql_blob = SqlNull | SqlBlob "byte list"

record execution_row =
  x_id :: string
  x_namespace :: string
  x_agent_name :: string
  x_pipeline_name :: string
  x_state :: ExecutionState
  x_data :: ExecutionRecord
  x_checkpoint :: sql_blob
  x_created_at :: timestamp
  x_updated_at :: timestamp

text \<open>
  A buffered channel \<^verbatim>\<open>make(chan ResourceEvent, n)\<close>: the events waiting in it, oldest
  first, and its capacity.
\<close>

record chan =
  ch_buf :: "ResourceEvent list"
  ch_cap :: nat

text \<open>
  The rows of \<^verbatim>\<open>executions\<close> are kept in insertion order.  \<^verbatim>\<open>watchers\<close> is the Go map from a
  kind to its slice of channels; a kind that is not in the map has the empty slice.
\<close>

record SQLiteStore =
  resources :: "resource_key \<rightharpoonup> resource_row"
  executions :: "execution_row list"
  watchers :: "ResourceKind \<Rightarrow> chan list"

text \<open>
  What a call takes from outside the store: the clock, the UUID generator, and whether
  \<^verbatim>\<open>json.Marshal\<close>, a query or a statement fails in the library or the storage engine.
\<close>

record env =
  now :: timestamp
  fresh_uuid :: string
  marshal_err :: bool
  query_err :: bool
  exec_err :: bool

definition ok_env :: "timestamp \<Rightarrow> string \<Rightarrow> env" where
  "ok_env t u = \<lparr>now = t, fresh_uuid = u, marshal_err = False, query_err = False, exec_err = False\<rparr>"

text \<open>
  The errors are built with \<^verbatim>\<open>fmt.Errorf\<close>; each constructor stands for one message:
  \<^verbatim>\<open>"resource %s/%s/%s not found"\<close> (Get), \<^verbatim>\<open>"not found"\<close> (getUnlocked),
  \<^verbatim>\<open>"execution %s not found"\<close> (GetExecution), an error of \<^verbatim>\<open>json.Marshal\<close>, and an error of the
  driver with the prefix the caller wraps it in.
\<close>

datatype store_error =
  ErrResourceNotFound ResourceKind string string
| ErrNotFound
| ErrExecutionNotFound string
| ErrMarshal
| ErrStorage string

fun is_not_found :: "store_error \<Rightarrow> bool" where
  "is_not_found (ErrResourceNotFound k ns n) = True"
| "is_not_found ErrNotFound = True"
| "is_not_found (ErrExecutionNotFound i) = True"
| "is_not_found ErrMarshal = False"
| "is_not_found (ErrStorage m) = False"

text \<open>The store after \<^verbatim>\<open>NewSQLiteStore\<close> and \<^verbatim>\<open>Migrate\<close> on a new file.\<close>

definition empty_store :: SQLiteStore where
  "empty_store = \<lparr>resources = Map.empty, executions = [], watchers = (\<lambda>k. [])\<rparr>"

subsection \<open>Watch and emit\<close>

text \<open>
  \<^verbatim>\<open>Watch\<close> appends a channel of capacity 100 to the slice of the kind; the channel it returns
  is named by its position in that slice.
\<close>

definition Watch :: "SQLiteStore \<Rightarrow> ResourceKind \<Rightarrow> nat \<times> SQLiteStore" where
  "Watch s kind =
     (let ch = \<lparr>ch_buf = [], ch_cap = 100\<rparr>
      in (length (watchers s kind),
          s\<lparr>watchers := (watchers s)(kind := watchers s kind @ [ch])\<rparr>))"

text \<open>
  The \<^verbatim>\<open>select\<close> with a \<^verbatim>\<open>default\<close> branch: the send is taken when the buffer has room, and the
  event is dropped otherwise.
\<close>

definition try_send :: "ResourceEvent \<Rightarrow> chan \<Rightarrow> chan" where
  "try_send event ch =
     (if length (ch_buf ch) < ch_cap ch then ch\<lparr>ch_buf := ch_buf ch @ [event]\<rparr> else ch)"

definition emit :: "SQLiteStore \<Rightarrow> ResourceKind \<Rightarrow> ResourceEvent \<Rightarrow> SQLiteStore" where
  "emit s kind event =
     s\<lparr>watchers := (watchers s)(kind := map (try_send event) (watchers s kind))\<rparr>"

text \<open>
  A subscriber's receive \<^verbatim>\<open><-ch\<close> on the channel at position \<open>n\<close> of a kind; it happens in
  the subscriber, outside the store.  It takes the oldest event.  On an empty channel the
  receiver waits: nothing is taken and the store is as before.
\<close>

definition recv :: "SQLiteStore \<Rightarrow> ResourceKind \<Rightarrow> nat \<Rightarrow> ResourceEvent option \<times> SQLiteStore" where
  "recv s kind n =
     (if n < length (watchers s kind)
      then (case ch_buf (watchers s kind ! n) of
              [] \<Rightarrow> (None, s)
            | event # rest \<Rightarrow>
                (Some event,
                 s\<lparr>watchers := (watchers s)
                      (kind := (watchers s kind)[n := (watchers s kind ! n)\<lparr>ch_buf := rest\<rparr>])\<rparr>))
      else (None, s))"

text \<open>Every channel has capacity 100 and holds no more events than that.\<close>

definition bounded :: "(ResourceKind \<Rightarrow> chan list) \<Rightarrow> bool" where
  "bounded w = (\<forall>k. \<forall>ch \<in> set (w k). ch_cap ch = 100 \<and> length (ch_buf ch) \<le> 100)"

subsection \<open>Resources\<close>

text \<open>Lines 87 to 101 of \<^verbatim>\<open>Put\<close>: the fields written into the caller's resource.\<close>

definition stamp :: "env \<Rightarrow> GenericResource \<Rightarrow> GenericResource" where
  "stamp e resource =
     (let r1 = (if md_UID (Metadata resource) = ''''
                then resource\<lparr>Metadata := (Metadata resource)
                        \<lparr>md_UID := fresh_uuid e, md_CreatedAt := now e\<rparr>\<rparr>
                else resource);
          r2 = r1\<lparr>Metadata := (Metadata r1)\<lparr>md_UpdatedAt := now e\<rparr>\<rparr>;
          r3 = (if rs_State (Status r2) = ''''
                then r2\<lparr>Status := (Status r2)
                        \<lparr>rs_State := ''Registered'', rs_Health := ''Unknown''\<rparr>\<rparr>
                else r2)
      in r3\<lparr>Status := (Status r3)\<lparr>rs_LastUpdated := now e\<rparr>\<rparr>)"

definition key_of :: "GenericResource \<Rightarrow> resource_key" where
  "key_of r = (Kind r, md_Namespace (Metadata r), md_Name (Metadata r))"

text \<open>
  The statement \<^verbatim>\<open>INSERT ... ON CONFLICT(kind, namespace, name) DO UPDATE SET data, updated_at\<close>:
  a new row takes all the values, an existing row keeps its \<^verbatim>\<open>uid\<close> and \<^verbatim>\<open>created_at\<close>.
\<close>

definition upsert_resource ::
  "(resource_key \<rightharpoonup> resource_row) \<Rightarrow> GenericResource \<Rightarrow> timestamp \<Rightarrow> (resource_key \<rightharpoonup> resource_row)" where
  "upsert_resource tbl r t =
     (case tbl (key_of r) of
        None \<Rightarrow> tbl(key_of r \<mapsto>
          \<lparr>row_uid = md_UID (Metadata r), row_data = r, row_created_at = t, row_updated_at = t\<rparr>)
      | Some old \<Rightarrow> tbl(key_of r \<mapsto> old\<lparr>row_data := r, row_updated_at := t\<rparr>))"

text \<open>
  \<^verbatim>\<open>Put\<close> returns its error, the caller's resource as \<^verbatim>\<open>Put\<close> leaves it (it is written through
  the pointer before anything can fail), and the store.
\<close>

definition Put ::
  "env \<Rightarrow> SQLiteStore \<Rightarrow> GenericResource \<Rightarrow> store_error option \<times> GenericResource \<times> SQLiteStore" where
  "Put e s resource =
     (let isNew = (md_UID (Metadata resource) = '''');
          r = stamp e resource
      in if marshal_err e then (Some ErrMarshal, r, s)
         else if exec_err e then (Some (ErrStorage ''upsert resource''), r, s)
         else (None, r,
               emit (s\<lparr>resources := upsert_resource (resources s) r (now e)\<rparr>) (Kind r)
                 \<lparr>ev_Type = (if isNew then EventCreated else EventUpdated), ev_Resource = r\<rparr>))"

text \<open>The event of lines 120 to 124 of \<^verbatim>\<open>Put\<close>, for a resource as the caller passes it.\<close>

definition put_event :: "env \<Rightarrow> GenericResource \<Rightarrow> ResourceEvent" where
  "put_event e r =
     \<lparr>ev_Type = (if md_UID (Metadata r) = '''' then EventCreated else EventUpdated),
      ev_Resource = stamp e r\<rparr>"

definition Get ::
  "env \<Rightarrow> SQLiteStore \<Rightarrow> ResourceKind \<Rightarrow> string \<Rightarrow> string \<Rightarrow> store_error + GenericResource" where
  "Get e s kind namespace name =
     (if query_err e then Inl (ErrStorage ''query resource'')
      else case resources s (kind, namespace, name) of
             None \<Rightarrow> Inl (ErrResourceNotFound kind namespace name)
           | Some row \<Rightarrow> Inr (row_data row))"

definition getUnlocked ::
  "env \<Rightarrow> SQLiteStore \<Rightarrow> ResourceKind \<Rightarrow> string \<Rightarrow> string \<Rightarrow> store_error + GenericResource" where
  "getUnlocked e s kind namespace name =
     (if query_err e then Inl (ErrStorage '''')
      else case resources s (kind, namespace, name) of
             None \<Rightarrow> Inl ErrNotFound
           | Some row \<Rightarrow> Inr (row_data row))"

definition Delete ::
  "env \<Rightarrow> SQLiteStore \<Rightarrow> ResourceKind \<Rightarrow> string \<Rightarrow> string \<Rightarrow> store_error option \<times> SQLiteStore" where
  "Delete e s kind namespace name =
     (case getUnlocked e s kind namespace name of
        Inl err \<Rightarrow> (Some err, s)
      | Inr res \<Rightarrow>
          if exec_err e then (Some (ErrStorage ''delete resource''), s)
          else (None,
                emit (s\<lparr>resources := (resources s)((kind, namespace, name) := None)\<rparr>) kind
                  \<lparr>ev_Type = EventDeleted, ev_Resource = res\<rparr>))"

definition UpdateStatus ::
  "env \<Rightarrow> SQLiteStore \<Rightarrow> ResourceKind \<Rightarrow> string \<Rightarrow> string \<Rightarrow> ResourceStatus
     \<Rightarrow> store_error option \<times> SQLiteStore" where
  "UpdateStatus e s kind namespace name status =
     (case Get e s kind namespace name of
        Inl err \<Rightarrow> (Some err, s)
      | Inr res \<Rightarrow>
          (let res' = res\<lparr>Status := status\<lparr>rs_LastUpdated := now e\<rparr>\<rparr>;
               out = Put e s res'
           in (fst out, snd (snd out))))"

subsection \<open>Executions\<close>

definition has_execution :: "SQLiteStore \<Rightarrow> string \<Rightarrow> bool" where
  "has_execution s eid = (eid \<in> x_id ` set (executions s))"

text \<open>
  \<^verbatim>\<open>CreateExecution\<close> is a plain \<^verbatim>\<open>INSERT\<close>: the primary key \<^verbatim>\<open>id\<close> makes the storage engine
  refuse a second row with the same id.  The \<^verbatim>\<open>checkpoint\<close> column is not among the inserted
  columns and takes its default, NULL.
\<close>

definition CreateExecution ::
  "env \<Rightarrow> SQLiteStore \<Rightarrow> ExecutionRecord \<Rightarrow> store_error option \<times> ExecutionRecord \<times> SQLiteStore" where
  "CreateExecution e s exec =
     (let x1 = (if ex_ID exec = '''' then exec\<lparr>ex_ID := fresh_uuid e\<rparr> else exec);
          x = x1\<lparr>ex_CreatedAt := now e, ex_UpdatedAt := now e\<rparr>
      in if marshal_err e then (Some ErrMarshal, x, s)
         else if exec_err e then (Some (ErrStorage ''''), x, s)
         else if has_execution s (ex_ID x)
         then (Some (ErrStorage ''UNIQUE constraint failed: executions.id''), x, s)
         else (None, x,
               s\<lparr>executions := executions s @
                  [\<lparr>x_id = ex_ID x, x_namespace = ex_Namespace x, x_agent_name = ex_AgentName x,
                    x_pipeline_name = ex_PipelineName x, x_state = ex_State x, x_data = x,
                    x_checkpoint = SqlNull, x_created_at = now e, x_updated_at = now e\<rparr>]\<rparr>))"

definition GetExecution :: "env \<Rightarrow> SQLiteStore \<Rightarrow> string \<Rightarrow> store_error + ExecutionRecord" where
  "GetExecution e s eid =
     (if query_err e then Inl (ErrStorage '''')
      else case find (\<lambda>row. x_id row = eid) (executions s) of
             None \<Rightarrow> Inl (ErrExecutionNotFound eid)
           | Some row \<Rightarrow> Inr (x_data row))"

text \<open>
  \<^verbatim>\<open>UPDATE executions SET state, data, updated_at WHERE id = ?\<close>: the rows with that id are
  rewritten; when there is none the statement changes nothing and reports no error.
\<close>

definition UpdateExecution ::
  "env \<Rightarrow> SQLiteStore \<Rightarrow> ExecutionRecord \<Rightarrow> store_error option \<times> ExecutionRecord \<times> SQLiteStore" where
  "UpdateExecution e s exec =
     (let x = exec\<lparr>ex_UpdatedAt := now e\<rparr>
      in if marshal_err e then (Some ErrMarshal, x, s)
         else if exec_err e then (Some (ErrStorage ''''), x, s)
         else (None, x,
               s\<lparr>executions := map (\<lambda>row. if x_id row = ex_ID x
                    then row\<lparr>x_state := ex_State x, x_data := x, x_updated_at := ex_UpdatedAt x\<rparr>
                    else row) (executions s)\<rparr>))"



text \<open>
  The driver binds a nil \<^verbatim>\<open>[]byte\<close> as NULL and any other slice as a blob, and scans NULL
  into the nil slice and a blob into a slice that is not nil.
\<close>

fun bind_bytes :: "go_bytes \<Rightarrow> sql_blob" where
  "bind_bytes None = SqlNull"
| "bind_bytes (Some bs) = SqlBlob bs"

fun scan_bytes :: "sql_blob \<Rightarrow> go_bytes" where
  "scan_bytes SqlNull = None"
| "scan_bytes (SqlBlob bs) = Some bs"

definition SaveCheckpoint ::
  "env \<Rightarrow> SQLiteStore \<Rightarrow> string \<Rightarrow> go_bytes \<Rightarrow> store_error option \<times> SQLiteStore" where
  "SaveCheckpoint e s executionID data =
     (if exec_err e then (Some (ErrStorage ''''), s)
      else (None,
            s\<lparr>executions := map (\<lambda>row. if x_id row = executionID
                 then row\<lparr>x_checkpoint := bind_bytes data, x_updated_at := now e\<rparr>
                 else row) (executions s)\<rparr>))"

text \<open>
  \<^verbatim>\<open>LoadCheckpoint\<close> returns \<^verbatim>\<open>(nil, nil)\<close> when no row has the id
  (\<^verbatim>\<open>sql.ErrNoRows\<close>), and otherwise what the scan of the column gives.
\<close>

definition LoadCheckpoint :: "env \<Rightarrow> SQLiteStore \<Rightarrow> string \<Rightarrow> store_error + go_bytes" where
  "LoadCheckpoint e s executionID =
     (if query_err e then Inl (ErrStorage '''')
      else case find (\<lambda>row. x_id row = executionID) (executions s) of
             None \<Rightarrow> Inr None
           | Some row \<Rightarrow> Inr (scan_bytes (x_checkpoint row)))"

subsection \<open>Sequences of calls\<close>


text \<open>The calls that change the store or its channels, for histories of a store.\<close>

datatype call =
  CallPut GenericResource
| CallDelete ResourceKind string string
| CallUpdateStatus ResourceKind string string ResourceStatus
| CallWatch ResourceKind
| CallRecv ResourceKind nat
| CallCreateExecution ExecutionRecord
| CallUpdateExecution ExecutionRecord
| CallSaveCheckpoint string go_bytes

fun apply_call :: "SQLiteStore \<Rightarrow> env \<times> call \<Rightarrow> SQLiteStore" where
  "apply_call s (e, CallPut r) = snd (snd (Put e s r))"
| "apply_call s (e, CallDelete k ns n) = snd (Delete e s k ns n)"
| "apply_call s (e, CallUpdateStatus k ns n st) = snd (UpdateStatus e s k ns n st)"
| "apply_call s (e, CallWatch k) = snd (Watch s k)"
| "apply_call s (e, CallRecv k n) = snd (recv s k n)"
| "apply_call s (e, CallCreateExecution x) = snd (snd (CreateExecution e s x))"
| "apply_call s (e, CallUpdateExecution x) = snd (snd (UpdateExecution e s x))"
| "apply_call s (e, CallSaveCheckpoint i bs) = snd (SaveCheckpoint e s i bs)"

definition run :: "SQLiteStore \<Rightarrow> (env \<times> call) list \<Rightarrow> SQLiteStore" where
  "run s cs = foldl apply_call s cs"

fun saves_checkpoint :: "string \<Rightarrow> env \<times> call \<Rightarrow> bool" where
  "saves_checkpoint i (e, CallSaveCheckpoint j bs) = (i = j)"
| "saves_checkpoint i (e, c) = False"

subsection \<open>Example values\<close>

definition agent0 :: GenericResource where
  "agent0 =
     \<lparr>Kind = ''Agent'',
      Metadata = \<lparr>md_Namespace = ''default'', md_Name = ''summarizer'', md_UID = '''',
                  md_CreatedAt = 0, md_UpdatedAt = 0\<rparr>,
      Spec = ''{}'',
      Status = \<lparr>rs_State = '''', rs_Health = ''Degraded'', rs_LastUpdated = 5\<rparr>\<rparr>"

definition exec0 :: ExecutionRecord where
  "exec0 =
     \<lparr>ex_ID = '''', ex_AgentName = ''summarizer'', ex_PipelineName = '''',
      ex_Namespace = ''default'', ex_State = ExecPending, ex_Input = Map.empty,
      ex_Output = Map.empty, ex_CurrentStep = 0, ex_TotalSteps = 0, ex_Checkpoint = None,
      ex_RetryCount = 0, ex_MaxRetries = 3, ex_Priority = 0, ex_Error = '''', ex_Logs = [],
      ex_TokensUsed = 0, ex_LatencyMs = 0, ex_CreatedAt = 0, ex_UpdatedAt = 0,
      ex_StartedAt = None, ex_CompletedAt = None\<rparr>"

definition store1 :: SQLiteStore where
  "store1 = snd (snd (Put (ok_env 1 ''uid-1'') empty_store agent0))"

definition ledger1 :: SQLiteStore where
  "ledger1 = snd (snd (CreateExecution (ok_env 1 ''exec-1'') empty_store exec0))"

definition history1 :: "(env \<times> call) list" where
  "history1 =
     [(ok_env 1 ''exec-1'', CallCreateExecution exec0),
      (ok_env 2 ''exec-2'',
         CallUpdateExecution (exec0\<lparr>ex_ID := ''exec-1'', ex_State := ExecRunning\<rparr>))]"

definition event0 :: ResourceEvent where
  "event0 = \<lparr>ev_Type = EventUpdated, ev_Resource = agent0\<rparr>"

text \<open>Two subscribers of kind Agent: the first never drained and full, the second empty.\<close>

definition busy_store :: SQLiteStore where
  "busy_store = empty_store\<lparr>watchers := (\<lambda>k. [])(''Agent'' :=
      [\<lparr>ch_buf = replicate 100 event0, ch_cap = 100\<rparr>, \<lparr>ch_buf = [], ch_cap = 100\<rparr>])\<rparr>"

definition history2 :: "(env \<times> call) list" where
  "history2 = [(ok_env 1 ''uid-1'', CallWatch ''Agent''), (ok_env 2 ''uid-2'', CallPut agent0)]"





section \<open>Properties\<close>

subsection \<open>Facts used by several proofs\<close>

lemma find_execution_none:
  "find (\<lambda>row. x_id row = i) (executions s) = None \<longleftrightarrow> \<not> has_execution s i"
  by (auto simp: has_execution_def find_None_iff)

lemma update_absent_rows:
  "\<not> has_execution s i \<Longrightarrow>
     map (\<lambda>row. if x_id row = i then f row else row) (executions s) = executions s"
  unfolding has_execution_def by (rule map_idI) auto

lemma store1_resources:
  "resources store1 (''Agent'', ''default'', ''summarizer'') \<noteq> None"
  by (simp add: store1_def Put_def stamp_def upsert_resource_def emit_def key_of_def ok_env_def
      empty_store_def agent0_def Let_def)

lemma ledger1_rows: "map x_id (executions ledger1) = [''exec-1'']"
  by (simp add: ledger1_def CreateExecution_def ok_env_def empty_store_def exec0_def Let_def
      has_execution_def)

subsection \<open>Delete\<close>

text \<open>
  Claim C7.  When \<^verbatim>\<open>Delete\<close> of a key returns no error, a following \<^verbatim>\<open>Get\<close> of the key returns
  an error, and it is the not-found error of \<^verbatim>\<open>Get\<close> whenever the query itself goes through.
  When the key has no row, \<^verbatim>\<open>Delete\<close> returns an error, the \<^verbatim>\<open>"not found"\<close> of
  \<^verbatim>\<open>getUnlocked\<close> whenever the query goes through, and leaves every channel of every watcher, and
  the whole store, as it was: no event is emitted.
\<close>

theorem delete_then_get_not_found:
  "(fst (Delete e s kind ns name) = None \<longrightarrow>
      (\<forall>e'. isl (Get e' (snd (Delete e s kind ns name)) kind ns name)) \<and>
      (\<not> query_err e' \<longrightarrow>
         Get e' (snd (Delete e s kind ns name)) kind ns name = Inl (ErrResourceNotFound kind ns name)))
   \<and> (resources s (kind, ns, name) = None \<longrightarrow>
      fst (Delete e s kind ns name) \<noteq> None \<and>
      (\<not> query_err e \<longrightarrow> fst (Delete e s kind ns name) = Some ErrNotFound) \<and>
      watchers (snd (Delete e s kind ns name)) = watchers s \<and>
      snd (Delete e s kind ns name) = s)"
  by (auto simp: Delete_def getUnlocked_def Get_def emit_def split: sum.splits if_splits option.splits)

theorem delete_then_get_not_found_witness:
  "fst (Delete (ok_env 2 ''uid-2'') store1 ''Agent'' ''default'' ''summarizer'') = None
   \<and> Get (ok_env 3 ''uid-3'') (snd (Delete (ok_env 2 ''uid-2'') store1 ''Agent'' ''default'' ''summarizer''))
        ''Agent'' ''default'' ''summarizer''
      = Inl (ErrResourceNotFound ''Agent'' ''default'' ''summarizer'')
   \<and> resources empty_store (''Agent'', ''default'', ''summarizer'') = None
   \<and> fst (Delete (ok_env 2 ''uid-2'') empty_store ''Agent'' ''default'' ''summarizer'') = Some ErrNotFound
   \<and> snd (Delete (ok_env 2 ''uid-2'') empty_store ''Agent'' ''default'' ''summarizer'') = empty_store"
proof -
  have ok: "fst (Delete (ok_env 2 ''uid-2'') store1 ''Agent'' ''default'' ''summarizer'') = None"
    using store1_resources
    by (auto simp: Delete_def getUnlocked_def ok_env_def split: option.splits)
  have absent: "resources empty_store (''Agent'', ''default'', ''summarizer'') = None"
    by (simp add: empty_store_def)
  have q2: "\<not> query_err (ok_env 2 ''uid-2'')" and q3: "\<not> query_err (ok_env 3 ''uid-3'')"
    by (simp_all add: ok_env_def)
  show ?thesis
    using delete_then_get_not_found [of "ok_env 2 ''uid-2''" store1 "''Agent''" "''default''"
        "''summarizer''" "ok_env 3 ''uid-3''"]
      delete_then_get_not_found [of "ok_env 2 ''uid-2''" empty_store "''Agent''" "''default''"
        "''summarizer''" "ok_env 3 ''uid-3''"]
      ok absent q2 q3
    by simp
qed

subsection \<open>UpdateExecution on an id that has no row\<close>

text \<open>
  Claim C9.  When no row has the id of the record, \<^verbatim>\<open>UpdateExecution\<close> leaves the store as it
  was (no row is changed and none is inserted), returns no error unless \<^verbatim>\<open>json.Marshal\<close> or the
  storage engine fails, and never returns a not-found error.
\<close>

theorem update_execution_absent:
  "\<not> has_execution s (ex_ID exec) \<Longrightarrow>
     snd (snd (UpdateExecution e s exec)) = s
     \<and> (\<not> marshal_err e \<and> \<not> exec_err e \<longrightarrow> fst (UpdateExecution e s exec) = None)
     \<and> (\<forall>err. fst (UpdateExecution e s exec) = Some err \<longrightarrow> \<not> is_not_found err)"
  using update_absent_rows [of s "ex_ID exec"]
  by (auto simp: UpdateExecution_def Let_def)

theorem update_execution_absent_witness:
  "\<not> has_execution ledger1 (ex_ID (exec0\<lparr>ex_ID := ''exec-9'', ex_State := ExecRunning\<rparr>))
   \<and> fst (UpdateExecution (ok_env 2 ''exec-2'') ledger1
            (exec0\<lparr>ex_ID := ''exec-9'', ex_State := ExecRunning\<rparr>)) = None
   \<and> snd (snd (UpdateExecution (ok_env 2 ''exec-2'') ledger1
            (exec0\<lparr>ex_ID := ''exec-9'', ex_State := ExecRunning\<rparr>))) = ledger1"
proof -
  have absent: "\<not> has_execution ledger1 (ex_ID (exec0\<lparr>ex_ID := ''exec-9'', ex_State := ExecRunning\<rparr>))"
    using ledger1_rows by (simp add: has_execution_def flip: set_map)
  show ?thesis
    using update_execution_absent [OF absent, of "ok_env 2 ''exec-2''"] absent
    by (simp add: ok_env_def)
qed

subsection \<open>Checkpoints\<close>

lemma find_after_update:
  "find (\<lambda>row. x_id row = i) (map (\<lambda>row. if x_id row = i then f row else row) rows)
     = map_option f (find (\<lambda>row. x_id row = i) rows)"
  if "\<And>row. x_id (f row) = x_id row"
  using that by (induction rows) auto

lemma find_snoc:
  "find P (xs @ [x]) =
     (case find P xs of None \<Rightarrow> (if P x then Some x else None) | Some y \<Rightarrow> Some y)"
  by (induction xs) auto

lemma has_execution_find:
  "has_execution s i \<Longrightarrow> \<exists>row. find (\<lambda>row. x_id row = i) (executions s) = Some row"
  using find_execution_none [of i s] by (cases "find (\<lambda>row. x_id row = i) (executions s)") auto

lemma find_execution_some:
  "find (\<lambda>row. x_id row = i) (executions s) = Some row \<Longrightarrow> row \<in> set (executions s) \<and> x_id row = i"
  by (auto simp: find_Some_iff)

lemma has_execution_ids: "has_execution s i \<longleftrightarrow> i \<in> set (map x_id (executions s))"
  by (simp add: has_execution_def)

lemma ids_after_update:
  "(\<And>row. x_id (f row) = x_id row) \<Longrightarrow>
     map x_id (map (\<lambda>row. if P row then f row else row) rows) = map x_id rows"
  by (induction rows) auto

lemma ids_save:
  "map x_id (executions (snd (SaveCheckpoint e s j b))) = map x_id (executions s)"
  by (simp add: SaveCheckpoint_def ids_after_update del: map_map)

lemma has_execution_save:
  "has_execution (snd (SaveCheckpoint e s j b)) i = has_execution s i"
  by (simp only: has_execution_ids ids_save)

lemma ledger1_has: "has_execution ledger1 ''exec-1''"
  using ledger1_rows by (simp add: has_execution_def flip: set_map)

lemma load_after_save:
  "has_execution s i \<Longrightarrow> fst (SaveCheckpoint e1 s i b) = None \<Longrightarrow> \<not> query_err e \<Longrightarrow>
     LoadCheckpoint e (snd (SaveCheckpoint e1 s i b)) i = Inr b"
proof -
  assume h: "has_execution s i" and s1: "fst (SaveCheckpoint e1 s i b) = None" and q: "\<not> query_err e"
  obtain row where row: "find (\<lambda>row. x_id row = i) (executions s) = Some row"
    using has_execution_find [OF h] by blast
  have x1: "\<not> exec_err e1" using s1 by (auto simp: SaveCheckpoint_def split: if_splits)
  have rt: "scan_bytes (bind_bytes b) = b" by (cases b) auto
  show ?thesis
    using row x1 q
    by (simp add: SaveCheckpoint_def LoadCheckpoint_def find_after_update rt)
qed

text \<open>
  Claim C4.  For an execution id that has a row, when \<^verbatim>\<open>SaveCheckpoint\<close> returns no error a
  following \<^verbatim>\<open>LoadCheckpoint\<close> of the id (whose query goes through) returns exactly the bytes
  saved; and after a second save it returns the bytes of the second save, whatever was saved
  before.
\<close>

theorem save_then_load_checkpoint:
  "has_execution s i \<Longrightarrow>
   fst (SaveCheckpoint e1 s i b1) = None \<Longrightarrow>
   fst (SaveCheckpoint e2 (snd (SaveCheckpoint e1 s i b1)) i b2) = None \<Longrightarrow>
   \<not> query_err e \<Longrightarrow>
     LoadCheckpoint e (snd (SaveCheckpoint e1 s i b1)) i = Inr b1
     \<and> LoadCheckpoint e (snd (SaveCheckpoint e2 (snd (SaveCheckpoint e1 s i b1)) i b2)) i = Inr b2"
  using load_after_save [of s i e1 b1 e]
    load_after_save [of "snd (SaveCheckpoint e1 s i b1)" i e2 b2 e]
    has_execution_save [of e1 s i b1 i]
  by simp

theorem save_then_load_checkpoint_witness:
  "has_execution ledger1 ''exec-1''
   \<and> fst (SaveCheckpoint (ok_env 2 ''u'') ledger1 ''exec-1'' (Some [1, 2])) = None
   \<and> fst (SaveCheckpoint (ok_env 3 ''u'') (snd (SaveCheckpoint (ok_env 2 ''u'') ledger1 ''exec-1'' (Some [1, 2])))
        ''exec-1'' (Some [])) = None
   \<and> LoadCheckpoint (ok_env 4 ''u'') (snd (SaveCheckpoint (ok_env 2 ''u'') ledger1 ''exec-1'' (Some [1, 2])))
        ''exec-1'' = Inr (Some [1, 2])
   \<and> LoadCheckpoint (ok_env 4 ''u'')
        (snd (SaveCheckpoint (ok_env 3 ''u'') (snd (SaveCheckpoint (ok_env 2 ''u'') ledger1 ''exec-1'' (Some [1, 2])))
           ''exec-1'' (Some []))) ''exec-1'' = Inr (Some [])"
proof -
  have s1: "fst (SaveCheckpoint (ok_env 2 ''u'') ledger1 ''exec-1'' (Some [1, 2])) = None"
    by (simp add: SaveCheckpoint_def ok_env_def)
  have s2: "fst (SaveCheckpoint (ok_env 3 ''u'') (snd (SaveCheckpoint (ok_env 2 ''u'') ledger1 ''exec-1'' (Some [1, 2])))
        ''exec-1'' (Some [])) = None"
    by (simp add: SaveCheckpoint_def ok_env_def)
  have q: "\<not> query_err (ok_env 4 ''u'')" by (simp add: ok_env_def)
  show ?thesis
    using save_then_load_checkpoint [OF ledger1_has s1 s2 q] ledger1_has s1 s2 by simp
qed

lemma create_execution_fresh:
  "fst (CreateExecution e s x) = None \<Longrightarrow> \<not> has_execution s (ex_ID (fst (snd (CreateExecution e s x))))"
  by (auto simp: CreateExecution_def Let_def split: if_splits)

lemma create_execution_rows:
  "fst (CreateExecution e s x) = None \<Longrightarrow>
   \<exists>row. executions (snd (snd (CreateExecution e s x))) = executions s @ [row]
       \<and> x_id row = ex_ID (fst (snd (CreateExecution e s x))) \<and> x_checkpoint row = SqlNull"
  by (auto simp: CreateExecution_def Let_def split: if_splits)

text \<open>
  Claim C10.  For an id that no row has, \<^verbatim>\<open>LoadCheckpoint\<close> (with a query that goes through)
  returns the nil slice and no error, not a not-found error; and that is the very result it
  returns for an execution that has just been created and never saved a checkpoint, so the
  two cases look the same to the caller.
\<close>

theorem load_checkpoint_missing_execution:
  "\<not> has_execution s i \<Longrightarrow> \<not> query_err e \<Longrightarrow>
     LoadCheckpoint e s i = Inr None
     \<and> (fst (CreateExecution e' s x) = None \<longrightarrow>
          LoadCheckpoint e (snd (snd (CreateExecution e' s x))) (ex_ID (fst (snd (CreateExecution e' s x))))
            = LoadCheckpoint e s i)"
proof -
  assume a: "\<not> has_execution s i" and q: "\<not> query_err e"
  have l: "LoadCheckpoint e s i = Inr None"
    using a q find_execution_none [of i s] by (simp add: LoadCheckpoint_def)
  have "LoadCheckpoint e (snd (snd (CreateExecution e' s x))) (ex_ID (fst (snd (CreateExecution e' s x)))) = Inr None"
    if ok: "fst (CreateExecution e' s x) = None"
  proof -
    obtain row where r: "executions (snd (snd (CreateExecution e' s x))) = executions s @ [row]"
      "x_id row = ex_ID (fst (snd (CreateExecution e' s x)))" "x_checkpoint row = SqlNull"
      using create_execution_rows [OF ok] by blast
    have "find (\<lambda>row. x_id row = ex_ID (fst (snd (CreateExecution e' s x)))) (executions s) = None"
      using create_execution_fresh [OF ok] find_execution_none by blast
    then show ?thesis using r q by (simp add: LoadCheckpoint_def find_snoc)
  qed
  with l show ?thesis by simp
qed

theorem load_checkpoint_missing_execution_witness:
  "\<not> has_execution ledger1 ''exec-9'' \<and> \<not> query_err (ok_env 5 ''u'')
   \<and> LoadCheckpoint (ok_env 5 ''u'') ledger1 ''exec-9'' = Inr None
   \<and> fst (CreateExecution (ok_env 2 ''exec-2'') ledger1 exec0) = None
   \<and> LoadCheckpoint (ok_env 5 ''u'') (snd (snd (CreateExecution (ok_env 2 ''exec-2'') ledger1 exec0)))
        (ex_ID (fst (snd (CreateExecution (ok_env 2 ''exec-2'') ledger1 exec0)))) = Inr None"
proof -
  have a: "\<not> has_execution ledger1 ''exec-9''"
    using ledger1_rows by (simp add: has_execution_def flip: set_map)
  have q: "\<not> query_err (ok_env 5 ''u'')" by (simp add: ok_env_def)
  have c: "fst (CreateExecution (ok_env 2 ''exec-2'') ledger1 exec0) = None"
    using ledger1_rows
    by (simp add: CreateExecution_def ok_env_def exec0_def Let_def has_execution_def flip: set_map)
  show ?thesis
    using load_checkpoint_missing_execution [OF a q, of "ok_env 2 ''exec-2''" exec0] a q c by simp
qed

subsection \<open>An execution that never saved a checkpoint\<close>

lemma executions_put: "executions (snd (snd (Put e s r))) = executions s"
  by (simp add: Put_def emit_def Let_def)

lemma executions_delete: "executions (snd (Delete e s k ns n)) = executions s"
  by (simp add: Delete_def emit_def split: sum.splits)

lemma executions_update_status: "executions (snd (UpdateStatus e s k ns n st)) = executions s"
  by (simp add: UpdateStatus_def executions_put Let_def split: sum.splits)

lemma executions_watch: "executions (snd (Watch s k)) = executions s"
  by (simp add: Watch_def Let_def)

lemma executions_recv: "executions (snd (recv s k n)) = executions s"
  by (simp add: recv_def split: list.splits)

lemma null_checkpoint_step:
  assumes "\<not> saves_checkpoint i c"
    and "\<forall>row \<in> set (executions s). x_id row = i \<longrightarrow> x_checkpoint row = SqlNull"
  shows "\<forall>row \<in> set (executions (apply_call s c)). x_id row = i \<longrightarrow> x_checkpoint row = SqlNull"
proof (cases c)
  case (Pair e call)
  show ?thesis
  proof (cases call)
    case (CallCreateExecution x)
    then show ?thesis using Pair assms(2)
      by (auto simp: CreateExecution_def Let_def)
  next
    case (CallUpdateExecution x)
    then show ?thesis using Pair assms(2)
      by (auto simp: UpdateExecution_def Let_def)
  next
    case (CallSaveCheckpoint j bs)
    then show ?thesis using Pair assms
      by (auto simp: SaveCheckpoint_def)
  qed (use Pair assms(2) in \<open>simp_all add: executions_put executions_delete
        executions_update_status executions_watch executions_recv\<close>)
qed

lemma null_checkpoint_run:
  assumes "\<forall>c \<in> set cs. \<not> saves_checkpoint i c"
    and "\<forall>row \<in> set (executions s). x_id row = i \<longrightarrow> x_checkpoint row = SqlNull"
  shows "\<forall>row \<in> set (executions (run s cs)). x_id row = i \<longrightarrow> x_checkpoint row = SqlNull"
  using assms unfolding run_def
proof (induction cs arbitrary: s)
  case Nil
  then show ?case by simp
next
  case (Cons c cs)
  have "\<forall>row \<in> set (executions (apply_call s c)). x_id row = i \<longrightarrow> x_checkpoint row = SqlNull"
    using null_checkpoint_step [of i c s] Cons.prems by simp
  then show ?case using Cons.IH [of "apply_call s c"] Cons.prems(1) by simp
qed

text \<open>
  Claim C5.  Take any history of calls on a new store in which \<^verbatim>\<open>SaveCheckpoint\<close> was never
  called for the id, and after which the id has a row.  Then \<^verbatim>\<open>LoadCheckpoint\<close> returns the nil
  slice and no error.  A read that fails returns an error instead, which is a different result;
  and once an empty, non-nil checkpoint has been saved, \<^verbatim>\<open>LoadCheckpoint\<close> returns the empty
  slice that is not nil, again a different result.
\<close>

theorem load_checkpoint_never_saved:
  assumes "\<forall>c \<in> set cs. \<not> saves_checkpoint i c"
    and "has_execution (run empty_store cs) i"
    and "\<not> query_err e" and "query_err e_fail"
  shows "LoadCheckpoint e (run empty_store cs) i = Inr None
    \<and> isl (LoadCheckpoint e_fail (run empty_store cs) i)
    \<and> LoadCheckpoint e_fail (run empty_store cs) i \<noteq> LoadCheckpoint e (run empty_store cs) i
    \<and> (fst (SaveCheckpoint e' (run empty_store cs) i (Some [])) = None \<longrightarrow>
         LoadCheckpoint e (snd (SaveCheckpoint e' (run empty_store cs) i (Some []))) i = Inr (Some [])
         \<and> LoadCheckpoint e (snd (SaveCheckpoint e' (run empty_store cs) i (Some []))) i
             \<noteq> LoadCheckpoint e (run empty_store cs) i)"
proof -
  let ?s = "run empty_store cs"
  have inv: "\<forall>row \<in> set (executions ?s). x_id row = i \<longrightarrow> x_checkpoint row = SqlNull"
    using null_checkpoint_run [OF assms(1), of empty_store] by (simp add: empty_store_def)
  obtain row where row: "find (\<lambda>row. x_id row = i) (executions ?s) = Some row"
    using has_execution_find [OF assms(2)] by blast
  then have "x_checkpoint row = SqlNull"
    using inv find_execution_some [OF row] by blast
  then have absent: "LoadCheckpoint e ?s i = Inr None"
    using row assms(3) by (simp add: LoadCheckpoint_def)
  have failed: "LoadCheckpoint e_fail ?s i = Inl (ErrStorage '''')"
    using assms(4) by (simp add: LoadCheckpoint_def)
  show ?thesis
    using absent failed load_after_save [OF assms(2) _ assms(3), of e' "Some []"] by simp
qed

theorem load_checkpoint_never_saved_witness:
  "filter (saves_checkpoint ''exec-1'') history1 = []
    \<and> has_execution (run empty_store history1) ''exec-1''
    \<and> LoadCheckpoint (ok_env 3 ''u'') (run empty_store history1) ''exec-1'' = Inr None
    \<and> isl (LoadCheckpoint ((ok_env 3 ''u'')\<lparr>query_err := True\<rparr>) (run empty_store history1) ''exec-1'')
    \<and> fst (SaveCheckpoint (ok_env 4 ''u'') (run empty_store history1) ''exec-1'' (Some [])) = None
    \<and> LoadCheckpoint (ok_env 3 ''u'')
         (snd (SaveCheckpoint (ok_env 4 ''u'') (run empty_store history1) ''exec-1'' (Some []))) ''exec-1''
       = Inr (Some [])"
proof -
  have h1: "\<forall>c \<in> set history1. \<not> saves_checkpoint ''exec-1'' c"
    by (simp add: history1_def)
  have h2: "has_execution (run empty_store history1) ''exec-1''"
    by (simp add: history1_def run_def CreateExecution_def UpdateExecution_def ok_env_def
        empty_store_def exec0_def Let_def has_execution_def)
  have h3: "\<not> query_err (ok_env 3 ''u'')" and h4: "query_err ((ok_env 3 ''u'')\<lparr>query_err := True\<rparr>)"
    by (simp_all add: ok_env_def)
  have h5: "fst (SaveCheckpoint (ok_env 4 ''u'') (run empty_store history1) ''exec-1'' (Some [])) = None"
    by (simp add: SaveCheckpoint_def ok_env_def)
  show ?thesis
    using load_checkpoint_never_saved [OF h1 h2 h3 h4, of "ok_env 4 ''u''"] h1 h2 h5
    by (simp add: filter_empty_conv)
qed

subsection \<open>Facts about Put and Delete\<close>

lemma kind_stamp: "Kind (stamp e r) = Kind r"
  by (simp add: stamp_def Let_def)

lemma key_stamp: "key_of (stamp e r) = key_of r"
  by (simp add: stamp_def key_of_def Let_def)



lemma put_ok_iff: "fst (Put e s r) = None \<longleftrightarrow> \<not> marshal_err e \<and> \<not> exec_err e"
  by (simp add: Put_def Let_def)

lemma put_resources:
  "fst (Put e s r) = None \<Longrightarrow>
     resources (snd (snd (Put e s r))) = upsert_resource (resources s) (stamp e r) (now e)"
  by (auto simp: Put_def Let_def emit_def split: if_splits)

lemma upsert_lookup:
  "\<exists>row. upsert_resource tbl r t (key_of r) = Some row \<and> row_data row = r"
  by (simp add: upsert_resource_def split: option.splits)

lemma put_then_lookup:
  "fst (Put e s r) = None \<Longrightarrow>
     \<exists>row. resources (snd (snd (Put e s r))) (key_of r) = Some row \<and> row_data row = stamp e r"
  using put_resources [of e s r] upsert_lookup [of "resources s" "stamp e r" "now e"]
  by (simp add: key_stamp)


lemma put_watchers:
  "fst (Put e s r) = None \<Longrightarrow>
     watchers (snd (snd (Put e s r))) =
       (watchers s)(Kind r := map (try_send (put_event e r)) (watchers s (Kind r)))"
  by (auto simp: Put_def Let_def emit_def put_event_def kind_stamp split: if_splits)

lemma put_watchers_any:
  "watchers (snd (snd (Put e s r))) = watchers s \<or>
   watchers (snd (snd (Put e s r))) =
       (watchers s)(Kind r := map (try_send (put_event e r)) (watchers s (Kind r)))"
  by (auto simp: Put_def Let_def emit_def put_event_def kind_stamp split: if_splits)

lemma delete_ok_iff:
  "fst (Delete e s k ns n) = None \<longleftrightarrow> \<not> query_err e \<and> resources s (k, ns, n) \<noteq> None \<and> \<not> exec_err e"
  by (auto simp: Delete_def getUnlocked_def split: sum.splits option.splits if_splits)

lemma delete_watchers_any:
  "watchers (snd (Delete e s k ns n)) = watchers s \<or>
   (\<exists>row. resources s (k, ns, n) = Some row \<and> watchers (snd (Delete e s k ns n)) =
       (watchers s)(k := map (try_send \<lparr>ev_Type = EventDeleted, ev_Resource = row_data row\<rparr>) (watchers s k)))"
  by (auto simp: Delete_def getUnlocked_def emit_def split: sum.splits option.splits if_splits)

lemma delete_watchers:
  "fst (Delete e s k ns n) = None \<Longrightarrow> resources s (k, ns, n) = Some row \<Longrightarrow>
     watchers (snd (Delete e s k ns n)) =
       (watchers s)(k := map (try_send \<lparr>ev_Type = EventDeleted, ev_Resource = row_data row\<rparr>) (watchers s k))"
  by (auto simp: Delete_def getUnlocked_def emit_def split: sum.splits option.splits if_splits)



lemma key_agent0: "key_of agent0 = (''Agent'', ''default'', ''summarizer'')"
  by (simp add: key_of_def agent0_def)


subsection \<open>The channels of the watchers\<close>

lemma try_send_bounded:
  "ch_cap ch = 100 \<and> length (ch_buf ch) \<le> 100 \<Longrightarrow>
     ch_cap (try_send ev ch) = 100 \<and> length (ch_buf (try_send ev ch)) \<le> 100"
  by (simp add: try_send_def)

lemma bounded_send:
  "bounded w \<Longrightarrow> bounded (w(k := map (try_send ev) (w k)))"
  unfolding bounded_def using try_send_bounded by auto

lemma bounded_put: "bounded (watchers s) \<Longrightarrow> bounded (watchers (snd (snd (Put e s r))))"
  using put_watchers_any [of e s r] bounded_send by metis

lemma bounded_delete: "bounded (watchers s) \<Longrightarrow> bounded (watchers (snd (Delete e s k ns n)))"
  using delete_watchers_any [of e s k ns n] bounded_send by metis

lemma bounded_update_status:
  "bounded (watchers s) \<Longrightarrow> bounded (watchers (snd (UpdateStatus e s k ns n st)))"
  by (simp add: UpdateStatus_def Let_def bounded_put split: sum.splits)

lemma bounded_watch: "bounded (watchers s) \<Longrightarrow> bounded (watchers (snd (Watch s k)))"
  by (auto simp: Watch_def Let_def bounded_def)

lemma bounded_recv: "bounded (watchers s) \<Longrightarrow> bounded (watchers (snd (recv s k n)))"
proof -
  assume b: "bounded (watchers s)"
  show ?thesis
  proof (cases "n < length (watchers s k)")
    case False
    then show ?thesis using b by (simp add: recv_def)
  next
    case True
    then have m: "watchers s k ! n \<in> set (watchers s k)" by simp
    show ?thesis
    proof (cases "ch_buf (watchers s k ! n)")
      case Nil
      then show ?thesis using b True by (simp add: recv_def)
    next
      case (Cons ev rest)
      have "ch_cap (watchers s k ! n) = 100 \<and> length (ch_buf (watchers s k ! n)) \<le> 100"
        using b m by (simp add: bounded_def)
      then have "\<forall>ch \<in> set ((watchers s k)[n := (watchers s k ! n)\<lparr>ch_buf := rest\<rparr>]).
                    ch_cap ch = 100 \<and> length (ch_buf ch) \<le> 100"
        using b Cons set_update_subset_insert [of "watchers s k" n "(watchers s k ! n)\<lparr>ch_buf := rest\<rparr>"]
        by (auto simp: bounded_def)
      then show ?thesis using b True Cons by (simp add: recv_def bounded_def)
    qed
  qed
qed

lemma bounded_step: "bounded (watchers s) \<Longrightarrow> bounded (watchers (apply_call s c))"
proof (cases c)
  case (Pair e call)
  assume b: "bounded (watchers s)"
  show ?thesis
  proof (cases call)
    case (CallCreateExecution x)
    then show ?thesis using Pair b by (simp add: CreateExecution_def Let_def)
  next
    case (CallUpdateExecution x)
    then show ?thesis using Pair b by (simp add: UpdateExecution_def Let_def)
  next
    case (CallSaveCheckpoint j bs)
    then show ?thesis using Pair b by (simp add: SaveCheckpoint_def)
  qed (use Pair b in \<open>simp_all add: bounded_put bounded_delete bounded_update_status
         bounded_watch bounded_recv\<close>)
qed

lemma bounded_run: "bounded (watchers s) \<Longrightarrow> bounded (watchers (run s cs))"
  unfolding run_def by (induction cs arbitrary: s) (simp_all add: bounded_step)

lemma bounded_empty: "bounded (watchers empty_store)"
  by (simp add: bounded_def empty_store_def)

lemma busy_agent:
  "watchers busy_store ''Agent'' = [\<lparr>ch_buf = replicate 100 event0, ch_cap = 100\<rparr>, \<lparr>ch_buf = [], ch_cap = 100\<rparr>]"
  by (simp add: busy_store_def empty_store_def)

text \<open>
  Claim C8.  \<^verbatim>\<open>Watch\<close> registers a channel with an empty buffer of capacity 100, and in every
  history of a new store each channel has capacity 100 and holds at most 100 events.  Whether
  \<^verbatim>\<open>Put\<close> or \<^verbatim>\<open>Delete\<close> returns an error depends on the environment and the table only, never
  on a channel.  When they return no error, each subscriber of the kind is treated on its own:
  a channel with room gets the event appended, a full channel is left as it is (the event is
  dropped for that subscriber), and no subscriber is added or removed.
\<close>

theorem watch_queue_bounded_drop:
  "fst (Watch s kind) = length (watchers s kind)
   \<and> watchers (snd (Watch s kind)) kind = watchers s kind @ [\<lparr>ch_buf = [], ch_cap = 100\<rparr>]
   \<and> (\<forall>ch \<in> set (watchers (run empty_store cs) kind). ch_cap ch = 100 \<and> length (ch_buf ch) \<le> 100)
   \<and> (fst (Put e s r) = None \<longleftrightarrow> \<not> marshal_err e \<and> \<not> exec_err e)
   \<and> (fst (Put e s r) = None \<longrightarrow>
        length (watchers (snd (snd (Put e s r))) (Kind r)) = length (watchers s (Kind r)) \<and>
        (\<forall>n < length (watchers s (Kind r)).
           watchers (snd (snd (Put e s r))) (Kind r) ! n =
             (if length (ch_buf (watchers s (Kind r) ! n)) < ch_cap (watchers s (Kind r) ! n)
              then (watchers s (Kind r) ! n)
                     \<lparr>ch_buf := ch_buf (watchers s (Kind r) ! n) @ [put_event e r]\<rparr>
              else watchers s (Kind r) ! n)))
   \<and> (fst (Delete e s kind ns name) = None \<longleftrightarrow>
        \<not> query_err e \<and> resources s (kind, ns, name) \<noteq> None \<and> \<not> exec_err e)
   \<and> (fst (Delete e s kind ns name) = None \<longrightarrow>
        length (watchers (snd (Delete e s kind ns name)) kind) = length (watchers s kind) \<and>
        (\<forall>n < length (watchers s kind).
           watchers (snd (Delete e s kind ns name)) kind ! n =
             (if length (ch_buf (watchers s kind ! n)) < ch_cap (watchers s kind ! n)
              then (watchers s kind ! n)
                     \<lparr>ch_buf := ch_buf (watchers s kind ! n) @
                        [\<lparr>ev_Type = EventDeleted,
                          ev_Resource = row_data (the (resources s (kind, ns, name)))\<rparr>]\<rparr>
              else watchers s kind ! n)))"
proof -
  have w: "fst (Watch s kind) = length (watchers s kind)
     \<and> watchers (snd (Watch s kind)) kind = watchers s kind @ [\<lparr>ch_buf = [], ch_cap = 100\<rparr>]"
    by (simp add: Watch_def Let_def)
  have b: "\<forall>ch \<in> set (watchers (run empty_store cs) kind). ch_cap ch = 100 \<and> length (ch_buf ch) \<le> 100"
    using bounded_run [OF bounded_empty, of cs] by (simp add: bounded_def)
  have p: "fst (Put e s r) = None \<longrightarrow>
        length (watchers (snd (snd (Put e s r))) (Kind r)) = length (watchers s (Kind r)) \<and>
        (\<forall>n < length (watchers s (Kind r)).
           watchers (snd (snd (Put e s r))) (Kind r) ! n =
             (if length (ch_buf (watchers s (Kind r) ! n)) < ch_cap (watchers s (Kind r) ! n)
              then (watchers s (Kind r) ! n)
                     \<lparr>ch_buf := ch_buf (watchers s (Kind r) ! n) @ [put_event e r]\<rparr>
              else watchers s (Kind r) ! n))"
    using put_watchers [of e s r] by (simp add: try_send_def)
  have d: "fst (Delete e s kind ns name) = None \<longrightarrow>
        length (watchers (snd (Delete e s kind ns name)) kind) = length (watchers s kind) \<and>
        (\<forall>n < length (watchers s kind).
           watchers (snd (Delete e s kind ns name)) kind ! n =
             (if length (ch_buf (watchers s kind ! n)) < ch_cap (watchers s kind ! n)
              then (watchers s kind ! n)
                     \<lparr>ch_buf := ch_buf (watchers s kind ! n) @
                        [\<lparr>ev_Type = EventDeleted,
                          ev_Resource = row_data (the (resources s (kind, ns, name)))\<rparr>]\<rparr>
              else watchers s kind ! n))"
  proof
    assume ok: "fst (Delete e s kind ns name) = None"
    then obtain row where row: "resources s (kind, ns, name) = Some row"
      using delete_ok_iff [of e s kind ns name] by auto
    show "length (watchers (snd (Delete e s kind ns name)) kind) = length (watchers s kind) \<and>
        (\<forall>n < length (watchers s kind).
           watchers (snd (Delete e s kind ns name)) kind ! n =
             (if length (ch_buf (watchers s kind ! n)) < ch_cap (watchers s kind ! n)
              then (watchers s kind ! n)
                     \<lparr>ch_buf := ch_buf (watchers s kind ! n) @
                        [\<lparr>ev_Type = EventDeleted,
                          ev_Resource = row_data (the (resources s (kind, ns, name)))\<rparr>]\<rparr>
              else watchers s kind ! n))"
      using delete_watchers [OF ok row] row by (simp add: try_send_def)
  qed
  show ?thesis
    using w b p d put_ok_iff [of e s r] delete_ok_iff [of e s kind ns name] by blast
qed

theorem watch_queue_bounded_drop_witness:
  "fst (Put (ok_env 7 ''uid-7'') busy_store agent0) = None
   \<and> watchers (snd (snd (Put (ok_env 7 ''uid-7'') busy_store agent0))) ''Agent'' ! 0
       = \<lparr>ch_buf = replicate 100 event0, ch_cap = 100\<rparr>
   \<and> watchers (snd (snd (Put (ok_env 7 ''uid-7'') busy_store agent0))) ''Agent'' ! 1
       = \<lparr>ch_buf = [put_event (ok_env 7 ''uid-7'') agent0], ch_cap = 100\<rparr>
   \<and> map ch_cap (watchers (run empty_store history2) ''Agent'') = [100]
   \<and> fst (Delete (ok_env 8 ''uid-8'') (snd (snd (Put (ok_env 7 ''uid-7'') busy_store agent0)))
          ''Agent'' ''default'' ''summarizer'') = None"
proof -
  have k: "Kind agent0 = ''Agent''" by (simp add: agent0_def)
  have env: "\<not> marshal_err (ok_env 7 ''uid-7'')" "\<not> exec_err (ok_env 7 ''uid-7'')"
    by (simp_all add: ok_env_def)
  have h: "length (watchers (run empty_store history2) ''Agent'') = 1"
    by (simp add: history2_def run_def Watch_def Put_def emit_def empty_store_def agent0_def
        ok_env_def stamp_def Let_def)
  have caps: "map ch_cap (watchers (run empty_store history2) ''Agent'') = [100]"
    if "\<forall>ch \<in> set (watchers (run empty_store history2) ''Agent''). ch_cap ch = 100 \<and> length (ch_buf ch) \<le> 100"
    using that h by (cases "watchers (run empty_store history2) ''Agent''") auto
  have p: "fst (Put (ok_env 7 ''uid-7'') busy_store agent0) = None"
    using env by (simp add: put_ok_iff)
  have r: "resources (snd (snd (Put (ok_env 7 ''uid-7'') busy_store agent0)))
             (''Agent'', ''default'', ''summarizer'') \<noteq> None"
    using put_then_lookup [OF p] by (auto simp: key_agent0)
  have d: "fst (Delete (ok_env 8 ''uid-8'') (snd (snd (Put (ok_env 7 ''uid-7'') busy_store agent0)))
          ''Agent'' ''default'' ''summarizer'') = None"
    using watch_queue_bounded_drop [where s = "snd (snd (Put (ok_env 7 ''uid-7'') busy_store agent0))"
        and kind = "''Agent''" and cs = history2 and e = "ok_env 8 ''uid-8''" and r = agent0
        and ns = "''default''" and name = "''summarizer''"] r
    by (simp add: ok_env_def)
  show ?thesis
    using watch_queue_bounded_drop [where s = busy_store and kind = "''Agent''" and cs = history2
        and e = "ok_env 7 ''uid-7''" and r = agent0 and ns = "''default''"
        and name = "''summarizer''"] env caps d
    by (simp add: k busy_agent)
qed

subsection \<open>Put followed by Get\<close>




subsection \<open>The uid across several Put calls\<close>







subsection \<open>The type of the event of Put\<close>







subsection \<open>ListExecutions\<close>





end
